theory Spec2Isabelle
  imports Complex_Main
begin

section \<open>The Kalman filter model of darts (darts/models/kalman_filter.py)\<close>

text \<open>
  The class \<^verbatim>\<open>KalmanFilter\<close> stores the parameters of a linear state-space model,
  builds a \<^verbatim>\<open>filterpy.kalman.KalmanFilter\<close> on the first call of \<^verbatim>\<open>filter\<close> and
  runs predict and update over the rows of a series. Numbers are modelled as
  \<^typ>\<open>real\<close>: the equations are those of exact arithmetic, rounding of the
  double-precision arithmetic is not modelled.
\<close>

subsection \<open>Vectors and matrices\<close>

text \<open>
  A vector is the list of its entries, a matrix the list of its rows. The operations are
  those of linear algebra on arrays whose shapes fit; on shapes that do not fit they
  truncate to the shorter operand and so are total.
\<close>

type_synonym vec = "real list"
type_synonym mat = "real list list"

definition dot :: "vec \<Rightarrow> vec \<Rightarrow> real" where
  "dot u v = sum_list (map2 (*) u v)"

definition vec_add :: "vec \<Rightarrow> vec \<Rightarrow> vec" where
  "vec_add u v = map2 (+) u v"

definition vec_sub :: "vec \<Rightarrow> vec \<Rightarrow> vec" where
  "vec_sub u v = map2 (-) u v"

definition mat_vec :: "mat \<Rightarrow> vec \<Rightarrow> vec" where
  "mat_vec A v = map (\<lambda>r. dot r v) A"

fun mat_transpose :: "mat \<Rightarrow> mat" where
  "mat_transpose [] = []"
| "mat_transpose [r] = map (\<lambda>a. [a]) r"
| "mat_transpose (r # rs) = map2 (#) r (mat_transpose rs)"

definition mat_mul :: "mat \<Rightarrow> mat \<Rightarrow> mat" where
  "mat_mul A B = map (\<lambda>r. map (dot r) (mat_transpose B)) A"

definition mat_add :: "mat \<Rightarrow> mat \<Rightarrow> mat" where
  "mat_add A B = map2 vec_add A B"

definition mat_sub :: "mat \<Rightarrow> mat \<Rightarrow> mat" where
  "mat_sub A B = map2 vec_sub A B"

definition eye :: "nat \<Rightarrow> mat" where
  "eye n = map (\<lambda>i. map (\<lambda>j. if i = j then 1 else 0) [0..<n]) [0..<n]"

text \<open>Deleting entry \<open>j\<close> of a row, and column \<open>j\<close> of a matrix.\<close>

definition del_nth :: "nat \<Rightarrow> 'a list \<Rightarrow> 'a list" where
  "del_nth j r = take j r @ drop (Suc j) r"

definition del_col :: "nat \<Rightarrow> mat \<Rightarrow> mat" where
  "del_col j A = map (del_nth j) A"

text \<open>The determinant, by expansion along the first row.\<close>

function det :: "mat \<Rightarrow> real" where
  "det [] = 1"
| "det (r # rs) =
     sum_list (map (\<lambda>j. (- 1) ^ j * (r ! j) * det (del_col j rs)) [0..<length r])"
  by pat_completeness auto
termination
  by (relation "measure length") (auto simp: del_col_def)

text \<open>
  The inverse by cofactors: entry \<open>(i, j)\<close> of the inverse is the cofactor of entry
  \<open>(j, i)\<close> divided by the determinant. A matrix whose determinant is zero has no
  inverse: the result is \<open>None\<close>.
\<close>

definition cofactor :: "mat \<Rightarrow> nat \<Rightarrow> nat \<Rightarrow> real" where
  "cofactor A i j = (- 1) ^ (i + j) * det (del_col j (del_nth i A))"

definition mat_inv :: "mat \<Rightarrow> mat option" where
  "mat_inv A =
     (let d = det A; n = length A in
      if d = 0 then None
      else Some (map (\<lambda>i. map (\<lambda>j. cofactor A j i / d) [0..<n]) [0..<n]))"

subsection \<open>Errors and the array library\<close>

text \<open>
  Every exception the method can raise is a value: \<open>ValueError\<close> is the error of the
  array library for a negative dimension or a size that does not fit, of the external
  filter's constructor for a size below one and of the series constructor for a series
  it refuses; \<open>LinAlgError\<close> is the array library's error for a singular matrix,
  \<open>AttributeError\<close> Python's error for reading an attribute that was never set,
  \<open>ValidationError\<close> the error of \<^verbatim>\<open>raise_if_not\<close>.
\<close>

datatype error =
  ValueError string
| LinAlgError string
| AttributeError string
| ValidationError string

text \<open>A two-dimensional array keeps its number of columns also when it has no row.\<close>

record array2 =
  ncols :: nat
  rows :: "vec list"

text \<open>\<^verbatim>\<open>np.zeros(n,)\<close>, \<^verbatim>\<open>np.eye(n)\<close>, \<^verbatim>\<open>np.ones((m, n))\<close> and \<^verbatim>\<open>np.zeros((m, n))\<close>, where
  \<open>n\<close> is a Python integer: a negative dimension is refused.\<close>

definition np_zeros :: "int \<Rightarrow> error + vec" where
  "np_zeros n =
     (if n < 0 then Inl (ValueError ''negative dimensions are not allowed'')
      else Inr (replicate (nat n) 0))"

definition np_eye :: "int \<Rightarrow> error + mat" where
  "np_eye n =
     (if n < 0 then Inl (ValueError ''negative dimensions are not allowed'')
      else Inr (eye (nat n)))"

definition np_ones :: "nat \<Rightarrow> int \<Rightarrow> error + mat" where
  "np_ones m n =
     (if n < 0 then Inl (ValueError ''negative dimensions are not allowed'')
      else Inr (replicate m (replicate (nat n) 1)))"

definition np_zeros2 :: "nat \<Rightarrow> int \<Rightarrow> error + array2" where
  "np_zeros2 m n =
     (if n < 0 then Inl (ValueError ''negative dimensions are not allowed'')
      else Inr \<lparr>ncols = nat n, rows = replicate m (replicate (nat n) 0)\<rparr>)"

text \<open>\<^verbatim>\<open>v.reshape(n,)\<close>: the same entries, refused when their number is not \<open>n\<close>.\<close>

definition reshape :: "vec \<Rightarrow> int \<Rightarrow> error + vec" where
  "reshape v n =
     (if int (length v) = n then Inr v
      else Inl (ValueError ''cannot reshape array''))"

subsection \<open>The collaborators: series, validation helper, base class\<close>

text \<open>
  Modelled from the spec: the time-indexed sequence container \<^verbatim>\<open>TimeSeries\<close> is not
  among the sources. The spec gives the interface used here: \<^verbatim>\<open>width\<close> (the number of
  value columns), \<^verbatim>\<open>values()\<close> (the raw array, one row per timestamp),
  \<^verbatim>\<open>time_index()\<close> (the timestamps) and the constructor
  \<^verbatim>\<open>from_times_and_values(times, values)\<close>.
\<close>

record 't TimeSeries =
  time_index :: "'t list"
  ts_values :: array2

text \<open>Modelled from the spec: \<^verbatim>\<open>width\<close>, the number of value columns of a series.\<close>

definition width :: "'t TimeSeries \<Rightarrow> nat" where
  "width series = ncols (ts_values series)"

text \<open>
  Modelled from the spec: the constructor \<^verbatim>\<open>from_times_and_values(times, values)\<close>
  produces the series of these timestamps and values. The sequences of the spec have
  length at least one: the constructor refuses a series with no row. Called without a
  frequency, as \<^verbatim>\<open>filter\<close> calls it, it also refuses a series with fewer than three rows,
  whose frequency it cannot infer.
\<close>

definition from_times_and_values :: "'t list \<Rightarrow> array2 \<Rightarrow> error + 't TimeSeries" where
  "from_times_and_values tms vs =
     (if rows vs = [] then Inl (ValueError ''Time series must not be empty'')
      else if length (rows vs) < 3
      then Inl (ValueError ''Time series must have at least 3 values if freq is not passed'')
      else Inr \<lparr>time_index = tms, ts_values = vs\<rparr>)"

text \<open>
  Modelled from the spec: the validation helper \<^verbatim>\<open>raise_if_not(condition, message)\<close>
  is not among the sources; it fails with a descriptive error when the condition is
  false.
\<close>

definition raise_if_not :: "bool \<Rightarrow> string \<Rightarrow> error + unit" where
  "raise_if_not c msg = (if c then Inr () else Inl (ValidationError msg))"

text \<open>
  Modelled from the spec: the base class \<^verbatim>\<open>FilteringModel\<close> is not among the sources;
  its \<^verbatim>\<open>filter\<close> is a hook that validates the input, which a series of this type
  passes.
\<close>

definition FilteringModel_filter :: "'t TimeSeries \<Rightarrow> error + unit" where
  "FilteringModel_filter series = Inr ()"

subsection \<open>The external filter\<close>

text \<open>
  Modelled from the spec: \<^verbatim>\<open>filterpy.kalman.KalmanFilter\<close> is an external library and
  not among the sources. The record holds the attributes the source sets and reads
  (\<^verbatim>\<open>dim_x\<close>, \<^verbatim>\<open>dim_z\<close>, \<^verbatim>\<open>x\<close>, \<^verbatim>\<open>P\<close>, \<^verbatim>\<open>Q\<close>, \<^verbatim>\<open>R\<close>, \<^verbatim>\<open>H\<close>, \<^verbatim>\<open>F\<close>, here with the prefix
  \<open>fp_\<close>): the sizes, the mean \<^verbatim>\<open>x\<close>, the covariance \<^verbatim>\<open>P\<close> and the matrices of the
  state-space model.
\<close>

record FpKalmanFilter =
  fp_dim_x :: int
  fp_dim_z :: nat
  fp_x :: vec
  fp_P :: mat
  fp_Q :: mat
  fp_R :: mat
  fp_H :: mat
  fp_F :: mat

text \<open>
  Modelled from the spec: the constructor \<^verbatim>\<open>FpKalmanFilter(dim_x, dim_z)\<close> of the external
  filter. It fails if \<^verbatim>\<open>dim_x\<close> is not a positive integer, and likewise for \<^verbatim>\<open>dim_z\<close>;
  otherwise the new filter has the two sizes, zero mean, identity covariance, noise and
  transition matrices and a zero observation map.
\<close>

definition FpKalmanFilter_new :: "int \<Rightarrow> nat \<Rightarrow> error + FpKalmanFilter" where
  "FpKalmanFilter_new dx dz =
     (if dx < 1 then Inl (ValueError ''dim_x must be 1 or greater'')
      else if dz < 1 then Inl (ValueError ''dim_z must be 1 or greater'')
      else Inr \<lparr>fp_dim_x = dx, fp_dim_z = dz, fp_x = replicate (nat dx) 0,
                fp_P = eye (nat dx), fp_Q = eye (nat dx), fp_R = eye dz,
                fp_H = replicate dz (replicate (nat dx) 0), fp_F = eye (nat dx)\<rparr>)"

text \<open>
  Modelled from the spec: the predict step of the external filter, by the spec's
  equations \<^verbatim>\<open>mean' = F mean\<close> and \<^verbatim>\<open>covariance' = F covariance F^T + Q\<close>.
\<close>

definition predict :: "FpKalmanFilter \<Rightarrow> FpKalmanFilter" where
  "predict k =
     k\<lparr>fp_x := mat_vec (fp_F k) (fp_x k),
       fp_P := mat_add (mat_mul (mat_mul (fp_F k) (fp_P k)) (mat_transpose (fp_F k))) (fp_Q k)\<rparr>"

text \<open>
  Modelled from the spec: the update step of the external filter, by the spec's
  equations \<^verbatim>\<open>innovation = obs - H mean'\<close>, \<^verbatim>\<open>S = H covariance' H^T + R\<close>,
  \<^verbatim>\<open>K = covariance' H^T S^-1\<close>, \<^verbatim>\<open>mean'' = mean' + K innovation\<close>,
  \<^verbatim>\<open>covariance'' = (I - K H) covariance'\<close>, with \<open>I\<close> the identity of size \<^verbatim>\<open>dim_x\<close>. The
  inverse of \<open>S\<close> exists only when \<open>S\<close> is not singular; on a singular \<open>S\<close> the step
  raises the array library's \<open>LinAlgError\<close> and leaves the filter as it was.
\<close>

definition update :: "FpKalmanFilter \<Rightarrow> vec \<Rightarrow> error + FpKalmanFilter" where
  "update k z =
     (let y = vec_sub z (mat_vec (fp_H k) (fp_x k));
          PHT = mat_mul (fp_P k) (mat_transpose (fp_H k));
          S = mat_add (mat_mul (fp_H k) PHT) (fp_R k)
      in case mat_inv S of
           None \<Rightarrow> Inl (LinAlgError ''Singular matrix'')
         | Some SI \<Rightarrow>
             let K = mat_mul PHT SI;
                 I_KH = mat_sub (eye (nat (fp_dim_x k))) (mat_mul K (fp_H k))
             in Inr (k\<lparr>fp_x := vec_add (fp_x k) (mat_vec K y),
                       fp_P := mat_mul I_KH (fp_P k)\<rparr>))"

subsection \<open>The model class\<close>

text \<open>
  The attributes \<^verbatim>\<open>__init__\<close> sets when no filter is supplied (\<^verbatim>\<open>P\<close>, \<^verbatim>\<open>Q\<close>, \<^verbatim>\<open>R\<close>,
  \<^verbatim>\<open>H\<close>, \<^verbatim>\<open>F\<close> with the prefix \<open>attr_\<close>). \<^verbatim>\<open>R\<close> and \<^verbatim>\<open>H\<close> stay \<^verbatim>\<open>None\<close> when not given.
\<close>

record KalmanFilter_attrs =
  dim_x :: int
  x_init :: vec
  attr_P :: mat
  attr_Q :: mat
  attr_R :: "mat option"
  attr_H :: "mat option"
  attr_F :: mat

text \<open>
  The object: \<^verbatim>\<open>self.kf\<close>, and the parameter attributes. When a filter is supplied,
  \<^verbatim>\<open>__init__\<close> sets \<^verbatim>\<open>self.kf\<close> only: the parameter attributes do not exist
  (\<open>attrs = None\<close>), and reading one raises \<open>AttributeError\<close>.
\<close>

record KalmanFilter =
  attrs :: "KalmanFilter_attrs option"
  kf :: "FpKalmanFilter option"

text \<open>\<^verbatim>\<open>v if v is not None else d\<close>, where computing \<open>d\<close> can fail.\<close>

definition or_default :: "'a option \<Rightarrow> error + 'a \<Rightarrow> error + 'a" where
  "or_default v d = (case v of Some a \<Rightarrow> Inr a | None \<Rightarrow> d)"

definition KalmanFilter_init ::
  "int \<Rightarrow> vec option \<Rightarrow> mat option \<Rightarrow> mat option \<Rightarrow> mat option \<Rightarrow> mat option \<Rightarrow>
   mat option \<Rightarrow> FpKalmanFilter option \<Rightarrow> error + KalmanFilter" where
  "KalmanFilter_init dx x0 Pm Qm Rm Hm Fm k =
     (case k of
        None \<Rightarrow>
          (case or_default x0 (np_zeros dx) of Inl e \<Rightarrow> Inl e | Inr x0' \<Rightarrow>
           case or_default Pm (np_eye dx) of Inl e \<Rightarrow> Inl e | Inr Pm' \<Rightarrow>
           case or_default Qm (np_eye dx) of Inl e \<Rightarrow> Inl e | Inr Qm' \<Rightarrow>
           case or_default Fm (np_eye dx) of Inl e \<Rightarrow> Inl e | Inr Fm' \<Rightarrow>
             Inr \<lparr>attrs = Some \<lparr>dim_x = dx, x_init = x0', attr_P = Pm', attr_Q = Qm',
                                attr_R = Rm, attr_H = Hm, attr_F = Fm'\<rparr>,
                  kf = None\<rparr>)
      | Some k' \<Rightarrow> Inr \<lparr>attrs = None, kf = Some k'\<rparr>)"

text \<open>Reading \<^verbatim>\<open>self.dim_x\<close>, \<^verbatim>\<open>self.x_init\<close>, ...: an error when the attributes were never set.\<close>

definition get_attrs :: "KalmanFilter \<Rightarrow> error + KalmanFilter_attrs" where
  "get_attrs self =
     (case attrs self of
        None \<Rightarrow> Inl (AttributeError ''dim_x'')
      | Some a \<Rightarrow> Inr a)"

text \<open>Lines 101 to 107 of \<^verbatim>\<open>filter\<close>: the external filter is constructed, then its mean,
  covariance and matrices are set from the attributes, \<^verbatim>\<open>R\<close> and \<^verbatim>\<open>H\<close> from their
  defaults when unset.\<close>

definition new_kf :: "KalmanFilter_attrs \<Rightarrow> nat \<Rightarrow> error + FpKalmanFilter" where
  "new_kf a dim_z =
     (case FpKalmanFilter_new (dim_x a) dim_z of Inl e \<Rightarrow> Inl e | Inr k \<Rightarrow>
      case or_default (attr_R a) (Inr (eye dim_z)) of Inl e \<Rightarrow> Inl e | Inr Rm \<Rightarrow>
      case or_default (attr_H a) (np_ones dim_z (dim_x a)) of Inl e \<Rightarrow> Inl e | Inr Hm \<Rightarrow>
        Inr (k\<lparr>fp_x := x_init a, fp_P := attr_P a, fp_Q := attr_Q a, fp_R := Rm,
               fp_H := Hm, fp_F := attr_F a\<rparr>))"

definition dim_z_message :: string where
  "dim_z_message =
     ''The provided TimeSeries dimensionality does not match the filter observation dimensionality dim_z.''"

text \<open>Lines 100 to 111: build and cache the filter when there is none, else check the
  width of the series against the filter's \<^verbatim>\<open>dim_z\<close>. The result is the object and, when
  no error is raised, its filter.\<close>

definition filter_setup :: "KalmanFilter \<Rightarrow> nat \<Rightarrow> KalmanFilter \<times> (error + FpKalmanFilter)" where
  "filter_setup self dim_z =
     (case kf self of
        None \<Rightarrow>
          (case get_attrs self of Inl e \<Rightarrow> (self, Inl e) | Inr a \<Rightarrow>
           case new_kf a dim_z of Inl e \<Rightarrow> (self, Inl e) | Inr k \<Rightarrow>
             (self\<lparr>kf := Some k\<rparr>, Inr k))
      | Some k \<Rightarrow>
          (case raise_if_not (dim_z = fp_dim_z k) dim_z_message of
             Inl e \<Rightarrow> (self, Inl e)
           | Inr _ \<Rightarrow> (self, Inr k)))"

text \<open>
  Lines 117 to 122, the loop \<^verbatim>\<open>for i in range(len(values))\<close>: it reads row \<open>i\<close> of the
  values, runs \<open>predict\<close> and \<open>update\<close> on the filter and writes the filter's mean into
  row \<open>i\<close> of \<^verbatim>\<open>filtered_values\<close>. The state is the filter and the output array; an
  exception leaves the filter as it is at that moment.
\<close>

fun filter_loop ::
  "int \<Rightarrow> vec list \<Rightarrow> FpKalmanFilter \<Rightarrow> array2 \<Rightarrow> nat list \<Rightarrow> FpKalmanFilter \<times> (error + array2)" where
  "filter_loop dx vs k fv [] = (k, Inr fv)"
| "filter_loop dx vs k fv (i # idxs) =
     (let obs = vs ! i; k1 = predict k in
      case update k1 obs of
        Inl e \<Rightarrow> (k1, Inl e)
      | Inr k2 \<Rightarrow>
          (case reshape (fp_x k2) dx of
             Inl e \<Rightarrow> (k2, Inl e)
           | Inr row \<Rightarrow> filter_loop dx vs k2 (fv\<lparr>rows := (rows fv)[i := row]\<rparr>) idxs))"

text \<open>
  \<^verbatim>\<open>KalmanFilter.filter\<close>. The result is the object after the call, with either the
  exception raised or the series returned. The last line builds the series to return,
  and raises when the series constructor refuses it.
\<close>

definition filter_ts ::
  "KalmanFilter \<Rightarrow> 't TimeSeries \<Rightarrow> KalmanFilter \<times> (error + 't TimeSeries)" where
  "filter_ts self series =
     (let dim_z = width series in
      case filter_setup self dim_z of
        (self1, Inl e) \<Rightarrow> (self1, Inl e)
      | (self1, Inr k) \<Rightarrow>
          (case FilteringModel_filter series of Inl e \<Rightarrow> (self1, Inl e) | Inr _ \<Rightarrow>
           let vs = rows (ts_values series) in
           case get_attrs self1 of Inl e \<Rightarrow> (self1, Inl e) | Inr a \<Rightarrow>
           case np_zeros2 (length vs) (dim_x a) of Inl e \<Rightarrow> (self1, Inl e) | Inr fv \<Rightarrow>
           case filter_loop (dim_x a) vs k fv [0..<length vs] of
             (k', Inl e) \<Rightarrow> (self1\<lparr>kf := Some k'\<rparr>, Inl e)
           | (k', Inr fv') \<Rightarrow>
               (self1\<lparr>kf := Some k'\<rparr>,
                from_times_and_values (time_index series) fv')))"

subsection \<open>Definitions used to state the properties\<close>

text \<open>
  The loop as a recursion on the rows still to be read: the filter after the rows, and
  the rows of means written so far, or the error that stopped the loop. Lemma
  \<open>filter_loop_run_rows\<close> below shows that the loop computes exactly this.
\<close>

fun run_rows :: "int \<Rightarrow> FpKalmanFilter \<Rightarrow> vec list \<Rightarrow> FpKalmanFilter \<times> (error + vec list)" where
  "run_rows dx k [] = (k, Inr [])"
| "run_rows dx k (z # zs) =
     (let k1 = predict k in
      case update k1 z of
        Inl e \<Rightarrow> (k1, Inl e)
      | Inr k2 \<Rightarrow>
          (case reshape (fp_x k2) dx of
             Inl e \<Rightarrow> (k2, Inl e)
           | Inr row \<Rightarrow>
               (case run_rows dx k2 zs of
                  (k', Inl e) \<Rightarrow> (k', Inl e)
                | (k', Inr out) \<Rightarrow> (k', Inr (row # out)))))"

text \<open>
  The recursion of the spec: for each observation in input order, a predict step followed
  by an update step. The result is the filter after the last observation.
\<close>

fun kf_run :: "FpKalmanFilter \<Rightarrow> vec list \<Rightarrow> error + FpKalmanFilter" where
  "kf_run k [] = Inr k"
| "kf_run k (z # zs) =
     (case update (predict k) z of Inl e \<Rightarrow> Inl e | Inr k' \<Rightarrow> kf_run k' zs)"

text \<open>Two filters that differ at most in mean and covariance.\<close>

definition same_setup :: "FpKalmanFilter \<Rightarrow> FpKalmanFilter \<Rightarrow> bool" where
  "same_setup k k' \<longleftrightarrow>
     fp_dim_x k' = fp_dim_x k \<and> fp_dim_z k' = fp_dim_z k \<and> fp_Q k' = fp_Q k \<and>
     fp_R k' = fp_R k \<and> fp_H k' = fp_H k \<and> fp_F k' = fp_F k"

text \<open>The concatenation of two series: the timestamps and the rows of the first, then
  those of the second.\<close>

definition ts_concat :: "'t TimeSeries \<Rightarrow> 't TimeSeries \<Rightarrow> 't TimeSeries" where
  "ts_concat a b =
     \<lparr>time_index = time_index a @ time_index b,
      ts_values = \<lparr>ncols = ncols (ts_values a),
                   rows = rows (ts_values a) @ rows (ts_values b)\<rparr>\<rparr>"

text \<open>The object after a sequence of calls of \<^verbatim>\<open>filter\<close>, each of which returned or raised.\<close>

fun filter_calls :: "KalmanFilter \<Rightarrow> 't TimeSeries list \<Rightarrow> KalmanFilter" where
  "filter_calls m [] = m"
| "filter_calls m (s # ss) = filter_calls (fst (filter_ts m s)) ss"

text \<open>
  The scenario of the spec: \<^verbatim>\<open>dim_x = 1\<close>, \<^verbatim>\<open>F = H = Q = 1\<close>, \<^verbatim>\<open>R = 1\<close>, \<^verbatim>\<open>P = 1\<close>,
  \<^verbatim>\<open>x_init = 0\<close>, and the observations 5, 5, 5 at the times 0, 1, 2; then a filter built
  beforehand with the same matrices, a series of width 2 and a series of width 1 with no
  row.
\<close>

definition scenario_model :: KalmanFilter where
  "scenario_model =
     \<lparr>attrs = Some \<lparr>dim_x = 1, x_init = [0], attr_P = [[1]], attr_Q = [[1]],
                    attr_R = Some [[1]], attr_H = Some [[1]], attr_F = [[1]]\<rparr>,
      kf = None\<rparr>"

definition scenario_series :: "nat TimeSeries" where
  "scenario_series =
     \<lparr>time_index = [0, 1, 2], ts_values = \<lparr>ncols = 1, rows = [[5], [5], [5]]\<rparr>\<rparr>"

definition scenario_kf :: FpKalmanFilter where
  "scenario_kf =
     \<lparr>fp_dim_x = 1, fp_dim_z = 1, fp_x = [0], fp_P = [[1]], fp_Q = [[1]],
      fp_R = [[1]], fp_H = [[1]], fp_F = [[1]]\<rparr>"

definition wide_series :: "nat TimeSeries" where
  "wide_series = \<lparr>time_index = [3], ts_values = \<lparr>ncols = 2, rows = [[1, 2]]\<rparr>\<rparr>"

definition empty_series :: "nat TimeSeries" where
  "empty_series = \<lparr>time_index = [], ts_values = \<lparr>ncols = 1, rows = []\<rparr>\<rparr>"

text \<open>The object that the constructor returns for \<^verbatim>\<open>dim_x = 0\<close> with every other parameter
  left out.\<close>

definition dim_x_zero_model :: KalmanFilter where
  "dim_x_zero_model =
     \<lparr>attrs = Some \<lparr>dim_x = 0, x_init = [], attr_P = [], attr_Q = [],
                    attr_R = None, attr_H = None, attr_F = []\<rparr>,
      kf = None\<rparr>"

text \<open>
  A model without noise, \<^verbatim>\<open>Q = R = 0\<close>, \<^verbatim>\<open>H = 1\<close>, \<^verbatim>\<open>F = 2\<close>, \<^verbatim>\<open>x_init = 3\<close>, \<^verbatim>\<open>P = 1\<close>: before
  its first call, and holding a filter with mean 3 and covariance 1; and the
  observations 5, 7, 9.
\<close>

definition noiseless_model :: KalmanFilter where
  "noiseless_model =
     \<lparr>attrs = Some \<lparr>dim_x = 1, x_init = [3], attr_P = [[1]], attr_Q = [[0]],
                    attr_R = Some [[0]], attr_H = Some [[1]], attr_F = [[2]]\<rparr>,
      kf = None\<rparr>"

definition noiseless_kf :: FpKalmanFilter where
  "noiseless_kf =
     \<lparr>fp_dim_x = 1, fp_dim_z = 1, fp_x = [3], fp_P = [[1]], fp_Q = [[0]],
      fp_R = [[0]], fp_H = [[1]], fp_F = [[2]]\<rparr>"

definition noiseless_series :: "nat TimeSeries" where
  "noiseless_series =
     \<lparr>time_index = [0, 1, 2], ts_values = \<lparr>ncols = 1, rows = [[5], [7], [9]]\<rparr>\<rparr>"

text \<open>The object and the output after \<^verbatim>\<open>filter\<close> on the scenario, and after a second
  call on the same series.\<close>

definition scenario_model_after :: KalmanFilter where
  "scenario_model_after =
     scenario_model\<lparr>kf := Some (scenario_kf\<lparr>fp_x := [100 / 21], fp_P := [[13 / 21]]\<rparr>)\<rparr>"

definition scenario_estimates :: "nat TimeSeries" where
  "scenario_estimates =
     \<lparr>time_index = [0, 1, 2],
      ts_values = \<lparr>ncols = 1, rows = [[10 / 3], [35 / 8], [100 / 21]]\<rparr>\<rparr>"

definition scenario_model_after2 :: KalmanFilter where
  "scenario_model_after2 =
     scenario_model\<lparr>kf := Some (scenario_kf\<lparr>fp_x := [1880 / 377], fp_P := [[233 / 377]]\<rparr>)\<rparr>"

definition scenario_estimates2 :: "nat TimeSeries" where
  "scenario_estimates2 =
     \<lparr>time_index = [0, 1, 2],
      ts_values = \<lparr>ncols = 1, rows = [[54 / 11], [715 / 144], [1880 / 377]]\<rparr>\<rparr>"

section \<open>Lemmas\<close>

subsection \<open>The inverse in sizes one and two\<close>

lemma mat_inv_1x1: "mat_inv [[s]] = (if s = 0 then None else Some [[1 / s]])"
  by (simp add: mat_inv_def cofactor_def del_col_def del_nth_def)

lemma mat_inv_2x2:
  assumes "mat_inv [[a, b], [c, d]] = Some B"
  shows "mat_mul [[a, b], [c, d]] B = eye 2 \<and> mat_mul B [[a, b], [c, d]] = eye 2"
proof -
  let ?A = "[[a, b], [c, d]]"
  define D where "D = a * d - b * c"
  have d2: "det ?A = D"
    by (simp add: D_def del_col_def del_nth_def upt_rec numeral_2_eq_2)
  have cof: "cofactor ?A 0 0 = d" "cofactor ?A 0 (Suc 0) = - c"
    "cofactor ?A (Suc 0) 0 = - b" "cofactor ?A (Suc 0) (Suc 0) = a"
    by (simp_all add: cofactor_def del_col_def del_nth_def)
  have up: "[0..<length ?A] = [0, Suc 0]"
    by (simp add: upt_rec)
  have nz: "D \<noteq> 0"
    using assms unfolding mat_inv_def Let_def d2 by (auto split: if_splits)
  have B: "B = [[d / D, - b / D], [- c / D, a / D]]"
    using assms nz unfolding mat_inv_def Let_def d2 up by (simp add: cof)
  have e2: "eye 2 = [[1, 0], [0, 1]]"
    by (simp add: eye_def upt_rec numeral_2_eq_2)
  have one: "a * d / D - b * c / D = 1"
    using nz by (simp add: D_def diff_divide_distrib[symmetric])
  have zero: "a * b / D - b * a / D = 0" "c * d / D - d * c / D = 0"
    by (simp_all add: mult.commute)
  show ?thesis
    unfolding B e2 using one zero
    by (simp add: mat_mul_def dot_def algebra_simps)
qed

subsection \<open>The equations of one step\<close>

lemma predict_equations:
  "fp_x (predict k) = mat_vec (fp_F k) (fp_x k) \<and>
   fp_P (predict k) =
     mat_add (mat_mul (mat_mul (fp_F k) (fp_P k)) (mat_transpose (fp_F k))) (fp_Q k)"
  by (simp add: predict_def)

lemma update_equations:
  assumes "update k z = Inr k'"
  shows "\<exists>S SI K.
           S = mat_add (mat_mul (fp_H k) (mat_mul (fp_P k) (mat_transpose (fp_H k)))) (fp_R k) \<and>
           mat_inv S = Some SI \<and>
           K = mat_mul (mat_mul (fp_P k) (mat_transpose (fp_H k))) SI \<and>
           fp_x k' = vec_add (fp_x k) (mat_vec K (vec_sub z (mat_vec (fp_H k) (fp_x k)))) \<and>
           fp_P k' = mat_mul (mat_sub (eye (nat (fp_dim_x k))) (mat_mul K (fp_H k))) (fp_P k)"
  using assms by (auto simp: update_def Let_def split: option.splits)

subsection \<open>The loop\<close>

lemma run_rows_length:
  "run_rows dx k zs = (k', Inr out) \<Longrightarrow> length out = length zs"
proof (induction zs arbitrary: k out)
  case Nil
  then show ?case by simp
next
  case (Cons z zs)
  then show ?case
    by (auto simp: Let_def split: sum.splits prod.splits)
qed

lemma filter_loop_run_rows:
  assumes "length (rows fv) = length vs" and "i \<le> length vs"
  shows "filter_loop dx vs k fv [i..<length vs] =
         (case run_rows dx k (drop i vs) of
            (k', Inl e) \<Rightarrow> (k', Inl e)
          | (k', Inr out) \<Rightarrow> (k', Inr (fv\<lparr>rows := take i (rows fv) @ out\<rparr>)))"
  using assms
proof (induction "length vs - i" arbitrary: i k fv)
  case 0
  then show ?case by simp
next
  case (Suc n)
  then have lt: "i < length vs" by simp
  have upt: "[i..<length vs] = i # [Suc i..<length vs]"
    using lt by (simp add: upt_conv_Cons)
  have drp: "drop i vs = vs ! i # drop (Suc i) vs"
    using lt by (simp add: Cons_nth_drop_Suc)
  show ?case
  proof (cases "update (predict k) (vs ! i)")
    case (Inl e)
    then show ?thesis by (simp add: upt drp)
  next
    case (Inr k2)
    show ?thesis
    proof (cases "reshape (fp_x k2) dx")
      case (Inl e)
      with Inr show ?thesis by (simp add: upt drp)
    next
      case row: (Inr row)
      let ?fv = "fv\<lparr>rows := (rows fv)[i := row]\<rparr>"
      have n: "n = length vs - Suc i" using Suc.hyps(2) by simp
      have len: "length (rows ?fv) = length vs" using Suc.prems by simp
      have le: "Suc i \<le> length vs" using lt by simp
      have ih: "filter_loop dx vs k2 ?fv [Suc i..<length vs] =
         (case run_rows dx k2 (drop (Suc i) vs) of
            (k', Inl e) \<Rightarrow> (k', Inl e)
          | (k', Inr out) \<Rightarrow> (k', Inr (?fv\<lparr>rows := take (Suc i) (rows ?fv) @ out\<rparr>)))"
        by (rule Suc.hyps(1)[OF n len le])
      have tk: "take (Suc i) ((rows fv)[i := row]) = take i (rows fv) @ [row]"
        using lt Suc.prems by (simp add: take_Suc_conv_app_nth)
      show ?thesis
        using Inr row ih by (simp add: upt drp tk split: prod.splits sum.splits)
    qed
  qed
qed

lemma run_rows_append:
  "run_rows dx k (xs @ ys) =
     (case run_rows dx k xs of
        (k1, Inl e) \<Rightarrow> (k1, Inl e)
      | (k1, Inr o1) \<Rightarrow>
          (case run_rows dx k1 ys of
             (k2, Inl e) \<Rightarrow> (k2, Inl e)
           | (k2, Inr o2) \<Rightarrow> (k2, Inr (o1 @ o2))))"
proof (induction xs arbitrary: k)
  case Nil
  then show ?case by (simp split: prod.splits sum.splits)
next
  case (Cons x xs)
  show ?case
    by (simp add: Cons.IH Let_def split: prod.splits sum.splits)
qed

text \<open>\<open>predict\<close> and \<open>update\<close> change mean and covariance only.\<close>

lemma same_setup_refl: "same_setup k k"
  by (simp add: same_setup_def)

lemma same_setup_trans: "same_setup k k1 \<Longrightarrow> same_setup k1 k2 \<Longrightarrow> same_setup k k2"
  by (simp add: same_setup_def)

lemma same_setup_predict: "same_setup k (predict k)"
  by (simp add: same_setup_def predict_def)

lemma same_setup_update: "update k z = Inr k' \<Longrightarrow> same_setup k k'"
  by (auto simp: same_setup_def update_def Let_def split: option.splits)

lemma same_setup_run_rows: "same_setup k (fst (run_rows dx k zs))"
proof (induction zs arbitrary: k)
  case Nil
  show ?case by (simp add: same_setup_refl)
next
  case (Cons z zs)
  show ?case
  proof (cases "update (predict k) z")
    case (Inl e)
    then show ?thesis by (simp add: same_setup_predict)
  next
    case (Inr k2)
    have s2: "same_setup k k2"
      using same_setup_trans[OF same_setup_predict same_setup_update[OF Inr]] .
    show ?thesis
    proof (cases "reshape (fp_x k2) dx")
      case (Inl e)
      with Inr s2 show ?thesis by simp
    next
      case row: (Inr row)
      have "same_setup k (fst (run_rows dx k2 zs))"
        using same_setup_trans[OF s2 Cons.IH] .
      with Inr row show ?thesis
        by (auto split: prod.splits sum.splits)
    qed
  qed
qed

text \<open>The loop raises the array library's errors only.\<close>

lemma update_error: "update k z = Inl e \<Longrightarrow> e = LinAlgError ''Singular matrix''"
  by (auto simp: update_def Let_def split: option.splits)

lemma reshape_error: "reshape v n = Inl e \<Longrightarrow> e = ValueError ''cannot reshape array''"
  by (auto simp: reshape_def split: if_splits)

lemma run_rows_error:
  "run_rows dx k zs = (k', Inl e) \<Longrightarrow>
     e = LinAlgError ''Singular matrix'' \<or> e = ValueError ''cannot reshape array''"
proof (induction zs arbitrary: k)
  case Nil
  then show ?case by simp
next
  case (Cons z zs)
  then show ?case
    by (auto simp: Let_def split: sum.splits prod.splits dest: update_error reshape_error)
qed

text \<open>The rows written are the means after each observation.\<close>

lemma run_rows_kf_run:
  "run_rows dx k zs = (k', Inr out) \<Longrightarrow> kf_run k zs = Inr k'"
proof (induction zs arbitrary: k out)
  case Nil
  then show ?case by simp
next
  case (Cons z zs)
  then show ?case
    by (auto simp: Let_def split: sum.splits prod.splits)
qed

text \<open>The state after one more observation comes from the state before it by a predict
  step followed by an update step.\<close>

lemma kf_run_snoc:
  "kf_run k (zs @ [z]) =
     (case kf_run k zs of Inl e \<Rightarrow> Inl e | Inr k' \<Rightarrow> update (predict k') z)"
proof (induction zs arbitrary: k)
  case Nil
  show ?case by (simp split: sum.splits)
next
  case (Cons y ys)
  show ?case by (simp add: Cons.IH split: sum.splits)
qed

lemma run_rows_take:
  "run_rows dx k zs = (k', Inr out) \<Longrightarrow> n \<le> length zs \<Longrightarrow>
     \<exists>kn. run_rows dx k (take n zs) = (kn, Inr (take n out))"
proof -
  assume r: "run_rows dx k zs = (k', Inr out)" and n: "n \<le> length zs"
  have "run_rows dx k (take n zs @ drop n zs) = (k', Inr out)" using r by simp
  then obtain kn o1 k2 o2 where a: "run_rows dx k (take n zs) = (kn, Inr o1)"
    and b: "run_rows dx kn (drop n zs) = (k2, Inr o2)" and c: "out = o1 @ o2"
    unfolding run_rows_append by (auto split: prod.splits sum.splits)
  have "length o1 = n" using run_rows_length[OF a] n by simp
  then have "take n out = o1" using c by simp
  with a show ?thesis by blast
qed

lemma run_rows_rows:
  "run_rows dx k zs = (k', Inr out) \<Longrightarrow> zs \<noteq> [] \<Longrightarrow> last out = fp_x k' \<and> int (length (fp_x k')) = dx"
proof (induction zs arbitrary: k out)
  case Nil
  then show ?case by simp
next
  case (Cons z zs)
  show ?case
  proof (cases zs)
    case Nil
    with Cons.prems show ?thesis
      by (auto simp: Let_def reshape_def split: sum.splits prod.splits if_splits)
  next
    case (Cons z' zs')
    from Cons.prems(1) obtain k2 row out' where
      u: "update (predict k) z = Inr k2" and
      r: "run_rows dx k2 zs = (k', Inr out')" and o: "out = row # out'"
      by (auto simp: Let_def split: sum.splits prod.splits)
    have ne: "zs \<noteq> []" using Cons by simp
    have "length out' = length zs" using run_rows_length[OF r] .
    then have "out' \<noteq> []" using ne by auto
    with Cons.IH[OF r ne] o show ?thesis by simp
  qed
qed

lemma run_rows_nth:
  assumes "run_rows dx k zs = (k', Inr out)" and "i < length zs"
  shows "\<exists>ki. kf_run k (take (Suc i) zs) = Inr ki \<and> out ! i = fp_x ki \<and>
              int (length (out ! i)) = dx"
proof -
  have le: "Suc i \<le> length zs" using assms(2) by simp
  obtain ki where t: "run_rows dx k (take (Suc i) zs) = (ki, Inr (take (Suc i) out))"
    using run_rows_take[OF assms(1) le] by blast
  have ne: "take (Suc i) zs \<noteq> []" using assms(2) by (cases zs) auto
  have len: "length out = length zs" using run_rows_length[OF assms(1)] .
  have "last (take (Suc i) out) = out ! i"
    using assms(2) len by (simp add: take_Suc_conv_app_nth)
  with run_rows_rows[OF t ne] run_rows_kf_run[OF t] show ?thesis by auto
qed

subsection \<open>The constructor and the method\<close>

lemma from_times_and_values_Inr:
  "from_times_and_values tms vs = Inr out \<longleftrightarrow>
     3 \<le> length (rows vs) \<and> out = \<lparr>time_index = tms, ts_values = vs\<rparr>"
  by (auto simp: from_times_and_values_def)

lemma from_times_and_values_error:
  "from_times_and_values tms vs = Inl e \<Longrightarrow> \<exists>msg. e = ValueError msg"
  by (auto simp: from_times_and_values_def split: if_splits)

lemma filter_ts_rows:
  "filter_ts self series =
     (case filter_setup self (width series) of
        (self1, Inl e) \<Rightarrow> (self1, Inl e)
      | (self1, Inr k) \<Rightarrow>
          (case get_attrs self1 of
             Inl e \<Rightarrow> (self1, Inl e)
           | Inr a \<Rightarrow>
               if dim_x a < 0
               then (self1, Inl (ValueError ''negative dimensions are not allowed''))
               else (case run_rows (dim_x a) k (rows (ts_values series)) of
                       (k', Inl e) \<Rightarrow> (self1\<lparr>kf := Some k'\<rparr>, Inl e)
                     | (k', Inr out) \<Rightarrow>
                         (self1\<lparr>kf := Some k'\<rparr>,
                          from_times_and_values (time_index series)
                            \<lparr>ncols = nat (dim_x a), rows = out\<rparr>))))"
proof -
  have loop: "filter_loop dx vs k \<lparr>ncols = c, rows = replicate (length vs) r\<rparr> [0..<length vs] =
      (case run_rows dx k vs of
         (k', Inl e) \<Rightarrow> (k', Inl e)
       | (k', Inr out) \<Rightarrow> (k', Inr \<lparr>ncols = c, rows = out\<rparr>))" for dx vs k c r
    using filter_loop_run_rows[of "\<lparr>ncols = c, rows = replicate (length vs) r\<rparr>" vs 0 dx k]
    by simp
  show ?thesis
    unfolding filter_ts_def FilteringModel_filter_def np_zeros2_def Let_def
    by (simp add: loop split: prod.splits sum.splits)
qed

lemma filter_setup_Some:
  "kf self = Some k \<Longrightarrow>
     filter_setup self w =
       (if w = fp_dim_z k then (self, Inr k) else (self, Inl (ValidationError dim_z_message)))"
  by (simp add: filter_setup_def raise_if_not_def)

lemma filter_setup_None:
  "kf self = None \<Longrightarrow> attrs self = Some a \<Longrightarrow>
     filter_setup self w =
       (case new_kf a w of Inl e \<Rightarrow> (self, Inl e) | Inr k \<Rightarrow> (self\<lparr>kf := Some k\<rparr>, Inr k))"
  by (simp add: filter_setup_def get_attrs_def)

lemma new_kf_dim_z: "new_kf a w = Inr k \<Longrightarrow> fp_dim_z k = w"
  by (auto simp: new_kf_def FpKalmanFilter_new_def split: sum.splits if_splits)

lemma new_kf_small:
  "dim_x a < 1 \<Longrightarrow> new_kf a w = Inl (ValueError ''dim_x must be 1 or greater'')"
  by (simp add: new_kf_def FpKalmanFilter_new_def)

lemma new_kf_pos:
  "0 < dim_x a \<Longrightarrow> 0 < w \<Longrightarrow>
     new_kf a w =
       Inr \<lparr>fp_dim_x = dim_x a, fp_dim_z = w, fp_x = x_init a, fp_P = attr_P a,
            fp_Q = attr_Q a,
            fp_R = (case attr_R a of Some Rm \<Rightarrow> Rm | None \<Rightarrow> eye w),
            fp_H = (case attr_H a of Some Hm \<Rightarrow> Hm
                    | None \<Rightarrow> replicate w (replicate (nat (dim_x a)) 1)),
            fp_F = attr_F a\<rparr>"
  by (simp add: new_kf_def FpKalmanFilter_new_def or_default_def np_ones_def
      split: option.splits)

lemma filter_setup_Inr:
  assumes "filter_setup self w = (self1, Inr k)"
  shows "kf self1 = Some k \<and> fp_dim_z k = w \<and> attrs self1 = attrs self"
proof (cases "kf self")
  case None
  with assms show ?thesis
    by (auto simp: filter_setup_def split: sum.splits dest: new_kf_dim_z)
next
  case (Some k0)
  with assms show ?thesis
    by (auto simp: filter_setup_Some split: if_splits)
qed

lemma filter_setup_Inl:
  assumes "filter_setup self w = (self1, Inl e)"
  shows "self1 = self"
  using assms
  by (auto simp: filter_setup_def split: option.splits sum.splits)

lemma filter_ts_success:
  assumes "filter_ts m s = (m', Inr out)"
  shows "\<exists>m1 k0 a kT outs.
           filter_setup m (width s) = (m1, Inr k0) \<and> attrs m = Some a \<and> 0 \<le> dim_x a \<and>
           run_rows (dim_x a) k0 (rows (ts_values s)) = (kT, Inr outs) \<and>
           m' = m1\<lparr>kf := Some kT\<rparr> \<and>
           out = \<lparr>time_index = time_index s,
                  ts_values = \<lparr>ncols = nat (dim_x a), rows = outs\<rparr>\<rparr>"
proof -
  obtain m1 r where st: "filter_setup m (width s) = (m1, r)"
    by (cases "filter_setup m (width s)")
  from assms st obtain k0 where r: "r = Inr k0"
    by (cases r) (auto simp: filter_ts_rows)
  note st' = st[unfolded r]
  from assms st' obtain a where ga: "get_attrs m1 = Inr a"
    by (cases "get_attrs m1") (auto simp: filter_ts_rows)
  have "attrs m1 = attrs m" using filter_setup_Inr[OF st'] by simp
  with ga have am: "attrs m = Some a"
    by (auto simp: get_attrs_def split: option.splits)
  from assms st' ga have d: "0 \<le> dim_x a"
    by (auto simp: filter_ts_rows split: if_splits)
  from assms st' ga d obtain kT outs where
    "run_rows (dim_x a) k0 (rows (ts_values s)) = (kT, Inr outs)"
    "m' = m1\<lparr>kf := Some kT\<rparr>"
    "out = \<lparr>time_index = time_index s,
            ts_values = \<lparr>ncols = nat (dim_x a), rows = outs\<rparr>\<rparr>"
    by (auto simp: filter_ts_rows from_times_and_values_Inr split: prod.splits sum.splits)
  with st' am d show ?thesis by blast
qed

text \<open>Two calls that return, against one call on the concatenation.\<close>

lemma filter_ts_concat:
  assumes w: "width a = width b"
    and fa: "filter_ts m a = (m1, Inr o1)"
    and fb: "filter_ts m1 b = (m2, Inr o2)"
  shows "filter_ts m (ts_concat a b) = (m2, Inr (ts_concat o1 o2))"
proof -
  have wc: "width (ts_concat a b) = width a"
    by (simp add: ts_concat_def width_def)
  have rc: "rows (ts_values (ts_concat a b)) = rows (ts_values a) @ rows (ts_values b)"
    by (simp add: ts_concat_def)
  have tc: "time_index (ts_concat a b) = time_index a @ time_index b"
    by (simp add: ts_concat_def)
  from filter_ts_success[OF fa] obtain s1 k0 av k1 outs1 where
    st: "filter_setup m (width a) = (s1, Inr k0)" and am: "attrs m = Some av" and
    d: "0 \<le> dim_x av" and
    r1: "run_rows (dim_x av) k0 (rows (ts_values a)) = (k1, Inr outs1)" and
    m1: "m1 = s1\<lparr>kf := Some k1\<rparr>" and
    o1: "o1 = \<lparr>time_index = time_index a,
                ts_values = \<lparr>ncols = nat (dim_x av), rows = outs1\<rparr>\<rparr>"
    by blast
  have s1: "kf s1 = Some k0" "attrs s1 = attrs m"
    using filter_setup_Inr[OF st] by simp_all
  have ga1: "get_attrs s1 = Inr av"
    using s1(2) am by (simp add: get_attrs_def)
  have len1: "3 \<le> length outs1"
    using fa st ga1 d r1
    by (auto simp: filter_ts_rows from_times_and_values_Inr)
  from filter_ts_success[OF fb] obtain s2 k1' bv k2 outs2 where
    st2: "filter_setup m1 (width b) = (s2, Inr k1')" and bm: "attrs m1 = Some bv" and
    r2: "run_rows (dim_x bv) k1' (rows (ts_values b)) = (k2, Inr outs2)" and
    m2: "m2 = s2\<lparr>kf := Some k2\<rparr>" and
    o2: "o2 = \<lparr>time_index = time_index b,
                ts_values = \<lparr>ncols = nat (dim_x bv), rows = outs2\<rparr>\<rparr>"
    by blast
  have bv: "bv = av" using bm m1 s1(2) am by simp
  have km1: "kf m1 = Some k1" using m1 by simp
  have "s2 = m1 \<and> k1' = k1"
    using st2 km1 by (auto simp: filter_setup_Some split: if_splits)
  then have s2: "s2 = m1" and k1': "k1' = k1" by simp_all
  have rr: "run_rows (dim_x av) k0 (rows (ts_values a) @ rows (ts_values b)) =
              (k2, Inr (outs1 @ outs2))"
    using r1 r2 by (simp add: run_rows_append bv k1')
  have m2': "m2 = s1\<lparr>kf := Some k2\<rparr>"
    using m2 s2 m1 by simp
  have "filter_ts m (ts_concat a b) =
          (s1\<lparr>kf := Some k2\<rparr>,
           from_times_and_values (time_index a @ time_index b)
             \<lparr>ncols = nat (dim_x av), rows = outs1 @ outs2\<rparr>)"
    using st ga1 d rr by (simp add: filter_ts_rows wc rc tc)
  moreover have "from_times_and_values (time_index a @ time_index b)
             \<lparr>ncols = nat (dim_x av), rows = outs1 @ outs2\<rparr> = Inr (ts_concat o1 o2)"
    using len1 by (simp add: from_times_and_values_Inr ts_concat_def o1 o2 bv)
  ultimately show ?thesis using m2' by simp
qed

lemma KalmanFilter_init_None:
  "KalmanFilter_init dx x0 Pm Qm Rm Hm Fm None =
     (if dx < 0 \<and> (x0 = None \<or> Pm = None \<or> Qm = None \<or> Fm = None)
      then Inl (ValueError ''negative dimensions are not allowed'')
      else Inr \<lparr>attrs = Some
                  \<lparr>dim_x = dx,
                   x_init = (case x0 of Some v \<Rightarrow> v | None \<Rightarrow> replicate (nat dx) 0),
                   attr_P = (case Pm of Some M \<Rightarrow> M | None \<Rightarrow> eye (nat dx)),
                   attr_Q = (case Qm of Some M \<Rightarrow> M | None \<Rightarrow> eye (nat dx)),
                   attr_R = Rm, attr_H = Hm,
                   attr_F = (case Fm of Some M \<Rightarrow> M | None \<Rightarrow> eye (nat dx))\<rparr>,
                kf = None\<rparr>)"
  by (simp add: KalmanFilter_init_def or_default_def np_zeros_def np_eye_def
      split: option.splits)

lemma KalmanFilter_init_Some:
  "KalmanFilter_init dx x0 Pm Qm Rm Hm Fm (Some k) = Inr \<lparr>attrs = None, kf = Some k\<rparr>"
  by (simp add: KalmanFilter_init_def)

lemma filter_ts_no_attrs:
  assumes "attrs m = None"
  shows "\<exists>e. filter_ts m s = (m, Inl e)"
proof (cases "kf m")
  case None
  with assms show ?thesis
    by (simp add: filter_ts_rows filter_setup_def get_attrs_def)
next
  case (Some k)
  with assms show ?thesis
    by (simp add: filter_ts_rows filter_setup_Some get_attrs_def)
qed

text \<open>What a call does to an object that holds a filter, when the width fits.\<close>

lemma filter_ts_fits:
  assumes "kf m = Some k" and "width s = fp_dim_z k"
  shows "\<exists>k' r. filter_ts m s = (m\<lparr>kf := Some k'\<rparr>, r) \<and> same_setup k k' \<and>
                r \<noteq> Inl (ValidationError dim_z_message)"
proof -
  have mk: "m\<lparr>kf := Some k\<rparr> = m" using assms(1) by simp
  have st: "filter_setup m (width s) = (m, Inr k)"
    using assms by (simp add: filter_setup_Some)
  show ?thesis
  proof (cases "get_attrs m")
    case (Inl e)
    then have e: "e = AttributeError ''dim_x''"
      by (auto simp: get_attrs_def split: option.splits)
    have "filter_ts m s = (m\<lparr>kf := Some k\<rparr>, Inl e)"
      using Inl st mk by (simp add: filter_ts_rows)
    moreover have "Inl e \<noteq> (Inl (ValidationError dim_z_message) :: error + 'a TimeSeries)"
      using e by simp
    ultimately show ?thesis using same_setup_refl[of k] by blast
  next
    case (Inr a)
    show ?thesis
    proof (cases "dim_x a < 0")
      case True
      have "filter_ts m s =
              (m\<lparr>kf := Some k\<rparr>, Inl (ValueError ''negative dimensions are not allowed''))"
        using Inr st mk True by (simp add: filter_ts_rows)
      moreover have "Inl (ValueError ''negative dimensions are not allowed'') \<noteq>
          (Inl (ValidationError dim_z_message) :: error + 'a TimeSeries)"
        by simp
      ultimately show ?thesis using same_setup_refl[of k] by blast
    next
      case False
      obtain k' r where rr: "run_rows (dim_x a) k (rows (ts_values s)) = (k', r)"
        by (cases "run_rows (dim_x a) k (rows (ts_values s))")
      have ss: "same_setup k k'"
        using same_setup_run_rows[of k "dim_x a" "rows (ts_values s)"] rr by simp
      show ?thesis
      proof (cases r)
        case (Inl e)
        with rr run_rows_error have "e \<noteq> ValidationError dim_z_message" by blast
        then have "Inl e \<noteq> (Inl (ValidationError dim_z_message) :: error + 'a TimeSeries)"
          by simp
        moreover have "filter_ts m s = (m\<lparr>kf := Some k'\<rparr>, Inl e)"
          using Inl rr Inr False st by (simp add: filter_ts_rows)
        ultimately show ?thesis using ss by blast
      next
        case out: (Inr out)
        let ?res = "from_times_and_values (time_index s) \<lparr>ncols = nat (dim_x a), rows = out\<rparr>"
        have "?res \<noteq> Inl (ValidationError dim_z_message)"
          using from_times_and_values_error[of "time_index s" _ "ValidationError dim_z_message"]
          by auto
        moreover have "filter_ts m s = (m\<lparr>kf := Some k'\<rparr>, ?res)"
          using out rr Inr False st by (simp add: filter_ts_rows)
        ultimately show ?thesis using ss by blast
      qed
    qed
  qed
qed

lemma filter_ts_mismatch_state:
  assumes "kf m = Some k" and "width s \<noteq> fp_dim_z k"
  shows "filter_ts m s = (m, Inl (ValidationError dim_z_message))"
  using assms by (simp add: filter_ts_rows filter_setup_Some)

lemma filter_ts_mismatch:
  assumes "kf m = Some k"
  shows "snd (filter_ts m s) = Inl (ValidationError dim_z_message) \<longleftrightarrow> width s \<noteq> fp_dim_z k"
proof (cases "width s = fp_dim_z k")
  case False
  with assms show ?thesis by (simp add: filter_ts_mismatch_state)
next
  case True
  from filter_ts_fits[OF assms True] show ?thesis using True by auto
qed

lemma filter_ts_kf_Some:
  assumes "kf m = Some k"
  shows "\<exists>k'. kf (fst (filter_ts m s)) = Some k' \<and> same_setup k k'"
proof (cases "width s = fp_dim_z k")
  case False
  with assms show ?thesis
    by (simp add: filter_ts_mismatch_state same_setup_refl)
next
  case True
  from filter_ts_fits[OF assms True] show ?thesis by auto
qed

lemma filter_calls_kf_Some:
  "kf m = Some k \<Longrightarrow> \<exists>k'. kf (filter_calls m ss) = Some k' \<and> same_setup k k'"
proof (induction ss arbitrary: m k)
  case Nil
  then show ?case by (simp add: same_setup_refl)
next
  case (Cons s ss)
  from filter_ts_kf_Some[OF Cons.prems, of s] obtain k1 where
    k1: "kf (fst (filter_ts m s)) = Some k1" and s1: "same_setup k k1" by blast
  from Cons.IH[OF k1] obtain k2 where
    "kf (filter_calls (fst (filter_ts m s)) ss) = Some k2" and "same_setup k1 k2" by blast
  with s1 show ?case by (auto intro: same_setup_trans)
qed

text \<open>The first call on an object built from parameters.\<close>

lemma filter_ts_first_call:
  assumes a: "attrs m = Some a" and n: "kf m = None" and d: "0 \<le> dim_x a"
    and k0: "new_kf a (width s) = Inr k0"
  shows "filter_setup m (width s) = (m\<lparr>kf := Some k0\<rparr>, Inr k0)"
    and "filter_ts m s =
      (case run_rows (dim_x a) k0 (rows (ts_values s)) of
         (k', Inl e) \<Rightarrow> (m\<lparr>kf := Some k'\<rparr>, Inl e)
       | (k', Inr out) \<Rightarrow>
           (m\<lparr>kf := Some k'\<rparr>,
            from_times_and_values (time_index s) \<lparr>ncols = nat (dim_x a), rows = out\<rparr>))"
proof -
  show st: "filter_setup m (width s) = (m\<lparr>kf := Some k0\<rparr>, Inr k0)"
    using a n k0 by (simp add: filter_setup_None)
  have ga: "get_attrs (m\<lparr>kf := Some k0\<rparr>) = Inr a"
    using a by (simp add: get_attrs_def)
  show "filter_ts m s =
      (case run_rows (dim_x a) k0 (rows (ts_values s)) of
         (k', Inl e) \<Rightarrow> (m\<lparr>kf := Some k'\<rparr>, Inl e)
       | (k', Inr out) \<Rightarrow>
           (m\<lparr>kf := Some k'\<rparr>,
            from_times_and_values (time_index s) \<lparr>ncols = nat (dim_x a), rows = out\<rparr>))"
    using d by (simp add: filter_ts_rows st ga split: prod.splits sum.splits)
qed

lemma filter_ts_first_kf:
  assumes "attrs m = Some a" and "kf m = None" and "0 \<le> dim_x a"
    and "new_kf a (width s) = Inr k0"
  shows "\<exists>k1. kf (fst (filter_ts m s)) = Some k1 \<and> same_setup k0 k1"
proof -
  obtain k1 r where rr: "run_rows (dim_x a) k0 (rows (ts_values s)) = (k1, r)"
    by (cases "run_rows (dim_x a) k0 (rows (ts_values s))")
  have "same_setup k0 k1"
    using same_setup_run_rows[of k0 "dim_x a" "rows (ts_values s)"] rr by simp
  moreover have "kf (fst (filter_ts m s)) = Some k1"
    using rr by (cases r) (simp_all add: filter_ts_first_call(2)[OF assms])
  ultimately show ?thesis by blast
qed

text \<open>An object built from parameters with \<^verbatim>\<open>dim_x\<close> below one never gets a filter.\<close>

lemma filter_ts_small_dim_x:
  assumes "attrs m = Some a" and "kf m = None" and "dim_x a < 1"
  shows "filter_ts m s = (m, Inl (ValueError ''dim_x must be 1 or greater''))"
  using assms by (simp add: filter_ts_rows filter_setup_None new_kf_small)

subsection \<open>The scenario, evaluated\<close>

lemma scenario_eval:
  "filter_ts scenario_model scenario_series = (scenario_model_after, Inr scenario_estimates)"
  by code_simp

lemma scenario_eval2:
  "filter_ts scenario_model_after scenario_series =
     (scenario_model_after2, Inr scenario_estimates2)"
  by code_simp

lemma scenario_init:
  "KalmanFilter_init 1 (Some [0]) (Some [[1]]) (Some [[1]]) (Some [[1]]) (Some [[1]])
     (Some [[1]]) None = Inr scenario_model"
  by code_simp

lemma scenario_after_kf:
  "kf scenario_model_after = Some (scenario_kf\<lparr>fp_x := [100 / 21], fp_P := [[13 / 21]]\<rparr>)"
  by (simp add: scenario_model_after_def)

lemma scenario_wide_eval:
  "snd (filter_ts scenario_model_after wide_series) = Inl (ValidationError dim_z_message)"
  by code_simp

text \<open>The noiseless model from its construction: the first call raises at the second
  observation and leaves the filter cached; a second call on the object, which now holds
  a filter, raises again and moves the mean from 10 to 20.\<close>

lemma noiseless_two_calls:
  "KalmanFilter_init 1 (Some [3]) (Some [[1]]) (Some [[0]]) (Some [[0]]) (Some [[1]])
     (Some [[2]]) None = Inr noiseless_model \<and>
   filter_ts noiseless_model noiseless_series =
     (noiseless_model\<lparr>kf := Some (noiseless_kf\<lparr>fp_x := [10], fp_P := [[0]]\<rparr>)\<rparr>,
      Inl (LinAlgError ''Singular matrix'')) \<and>
   filter_ts (noiseless_model\<lparr>kf := Some (noiseless_kf\<lparr>fp_x := [10], fp_P := [[0]]\<rparr>)\<rparr>)
       noiseless_series =
     (noiseless_model\<lparr>kf := Some (noiseless_kf\<lparr>fp_x := [20], fp_P := [[0]]\<rparr>)\<rparr>,
      Inl (LinAlgError ''Singular matrix''))"
  by code_simp

section \<open>The claims\<close>

text \<open>
  C1. When \<^verbatim>\<open>filter\<close> returns, the observations were processed in input order: with
  \<open>k0\<close> the filter on entry to the loop (the cached one, or the one just built), the
  filter after the call is \<open>k0\<close> advanced by a predict step followed by an update step
  for each row in turn, and row \<open>i\<close> of the output is the mean of the filter after the
  first \<open>i + 1\<close> observations. The predict and update steps are those of the spec.
\<close>

theorem filter_predict_update_in_order:
  assumes "filter_ts m s = (m', Inr out)"
  shows "\<exists>k0 kT.
           snd (filter_setup m (width s)) = Inr k0 \<and>
           kf_run k0 (rows (ts_values s)) = Inr kT \<and> kf m' = Some kT \<and>
           length (rows (ts_values out)) = length (rows (ts_values s)) \<and>
           (\<forall>i < length (rows (ts_values s)).
              \<exists>ki. kf_run k0 (take (Suc i) (rows (ts_values s))) = Inr ki \<and>
                   rows (ts_values out) ! i = fp_x ki)"
proof -
  from filter_ts_success[OF assms] obtain m1 k0 a kT outs where
    st: "filter_setup m (width s) = (m1, Inr k0)" and
    am: "attrs m = Some a" and
    rr: "run_rows (dim_x a) k0 (rows (ts_values s)) = (kT, Inr outs)" and
    m': "m' = m1\<lparr>kf := Some kT\<rparr>" and
    out: "out = \<lparr>time_index = time_index s,
                  ts_values = \<lparr>ncols = nat (dim_x a), rows = outs\<rparr>\<rparr>"
    by blast
  have "\<forall>i < length (rows (ts_values s)).
          \<exists>ki. kf_run k0 (take (Suc i) (rows (ts_values s))) = Inr ki \<and>
               rows (ts_values out) ! i = fp_x ki"
    using run_rows_nth[OF rr] out by auto
  moreover have "length (rows (ts_values out)) = length (rows (ts_values s))"
    using run_rows_length[OF rr] out by simp
  ultimately show ?thesis
    using st run_rows_kf_run[OF rr] m' by auto
qed

theorem filter_predict_update_in_order_witness:
  "filter_ts scenario_model scenario_series = (scenario_model_after, Inr scenario_estimates) \<and>
   (\<exists>k0 kT.
      snd (filter_setup scenario_model (width scenario_series)) = Inr k0 \<and>
      kf_run k0 (rows (ts_values scenario_series)) = Inr kT \<and>
      kf scenario_model_after = Some kT \<and>
      length (rows (ts_values scenario_estimates)) = length (rows (ts_values scenario_series)) \<and>
      (\<forall>i < length (rows (ts_values scenario_series)).
         \<exists>ki. kf_run k0 (take (Suc i) (rows (ts_values scenario_series))) = Inr ki \<and>
              rows (ts_values scenario_estimates) ! i = fp_x ki))"
  by (rule conjI[OF scenario_eval filter_predict_update_in_order[OF scenario_eval]])

text \<open>
  C2. When \<^verbatim>\<open>filter\<close> returns, the output has as many rows as the input, the timestamps
  of the input, and its width is \<^verbatim>\<open>dim_x\<close> (every row has \<^verbatim>\<open>dim_x\<close> entries), whatever
  the width of the input.
\<close>

theorem filter_output_shape:
  assumes "filter_ts m s = (m', Inr out)"
  shows "length (rows (ts_values out)) = length (rows (ts_values s)) \<and>
         time_index out = time_index s \<and>
         (\<exists>a. attrs m = Some a \<and> int (width out) = dim_x a \<and>
              (\<forall>r \<in> set (rows (ts_values out)). int (length r) = dim_x a))"
proof -
  from filter_ts_success[OF assms] obtain k0 a kT outs where
    am: "attrs m = Some a" and d: "0 \<le> dim_x a" and
    rr: "run_rows (dim_x a) k0 (rows (ts_values s)) = (kT, Inr outs)" and
    out: "out = \<lparr>time_index = time_index s,
                  ts_values = \<lparr>ncols = nat (dim_x a), rows = outs\<rparr>\<rparr>"
    by blast
  have len: "length outs = length (rows (ts_values s))"
    using run_rows_length[OF rr] .
  have "\<forall>r \<in> set outs. int (length r) = dim_x a"
  proof
    fix r assume "r \<in> set outs"
    then obtain i where i: "i < length outs" and r: "r = outs ! i"
      by (auto simp: in_set_conv_nth)
    from run_rows_nth[OF rr, of i] i len show "int (length r) = dim_x a"
      by (auto simp: r)
  qed
  with am d len out show ?thesis
    by (simp add: width_def)
qed

theorem filter_output_shape_witness:
  "filter_ts scenario_model scenario_series = (scenario_model_after, Inr scenario_estimates) \<and>
   (length (rows (ts_values scenario_estimates)) = length (rows (ts_values scenario_series)) \<and>
    time_index scenario_estimates = time_index scenario_series \<and>
    (\<exists>a. attrs scenario_model = Some a \<and> int (width scenario_estimates) = dim_x a \<and>
         (\<forall>r \<in> set (rows (ts_values scenario_estimates)). int (length r) = dim_x a)))"
  by (rule conjI[OF scenario_eval filter_output_shape[OF scenario_eval]])

text \<open>
  C3. For two series of the same width: when \<^verbatim>\<open>filter\<close> returns on the first and then
  on the second, one call on their concatenation, from the same starting object,
  returns the concatenation of the two outputs and leaves the object, so the mean and
  the covariance of its filter, as the two calls leave it.
\<close>

theorem filter_twice_is_filter_concat:
  assumes "width a = width b"
    and "filter_ts m a = (m1, Inr o1)"
    and "filter_ts m1 b = (m2, Inr o2)"
  shows "filter_ts m (ts_concat a b) = (m2, Inr (ts_concat o1 o2))"
  using filter_ts_concat[OF assms(1), of m] assms(2,3) by simp

theorem filter_twice_is_filter_concat_witness:
  "width scenario_series = width scenario_series \<and>
   filter_ts scenario_model scenario_series = (scenario_model_after, Inr scenario_estimates) \<and>
   filter_ts scenario_model_after scenario_series =
     (scenario_model_after2, Inr scenario_estimates2) \<and>
   filter_ts scenario_model (ts_concat scenario_series scenario_series) =
     (scenario_model_after2, Inr (ts_concat scenario_estimates scenario_estimates2))"
  using filter_twice_is_filter_concat[OF refl scenario_eval scenario_eval2]
    scenario_eval scenario_eval2
  by simp


text \<open>
  C4. On an object whose filter exists, \<^verbatim>\<open>filter\<close> raises the dimension-mismatch error
  exactly when the width of the series differs from the filter's \<^verbatim>\<open>dim_z\<close>: a series of
  another width raises it, a series of that width does not.
\<close>

theorem filter_dimension_check:
  assumes "kf m = Some k"
  shows "snd (filter_ts m s) = Inl (ValidationError dim_z_message) \<longleftrightarrow>
         width s \<noteq> fp_dim_z k"
  using filter_ts_mismatch[OF assms] .

theorem filter_dimension_check_witness:
  "kf scenario_model_after = Some (scenario_kf\<lparr>fp_x := [100 / 21], fp_P := [[13 / 21]]\<rparr>) \<and>
   snd (filter_ts scenario_model_after wide_series) = Inl (ValidationError dim_z_message) \<and>
   width wide_series = 2 \<and>
   snd (filter_ts scenario_model_after scenario_series) \<noteq> Inl (ValidationError dim_z_message) \<and>
   width scenario_series = 1 \<and>
   fp_dim_z (scenario_kf\<lparr>fp_x := [100 / 21], fp_P := [[13 / 21]]\<rparr>) = 1"
  using filter_dimension_check[OF scenario_after_kf, of wide_series]
    filter_dimension_check[OF scenario_after_kf, of scenario_series] scenario_after_kf
  by (simp add: wide_series_def scenario_series_def scenario_kf_def width_def)

text \<open>
  C5, as amended. In the scenario the constructor returns the model, \<^verbatim>\<open>filter\<close>
  returns the means 10/3, 35/8 and 100/21: they increase strictly, stay below 5, and each
  is closer to 5 than the one before. The first output is 10/3.
\<close>

theorem scenario_outputs:
  "KalmanFilter_init 1 (Some [0]) (Some [[1]]) (Some [[1]]) (Some [[1]]) (Some [[1]])
     (Some [[1]]) None = Inr scenario_model \<and>
   snd (filter_ts scenario_model scenario_series) =
     Inr \<lparr>time_index = [0, 1, 2],
          ts_values = \<lparr>ncols = 1, rows = [[10 / 3], [35 / 8], [100 / 21]]\<rparr>\<rparr> \<and>
   (10 / 3 :: real) < 35 / 8 \<and> (35 / 8 :: real) < 100 / 21 \<and> (100 / 21 :: real) < 5"
  using scenario_init scenario_eval by (simp add: scenario_estimates_def)

text \<open>
  C5, as stated, fails: the first output is 10/3, which is further than 1/2 from 2.5.
\<close>

theorem scenario_first_output_counterexample:
  "(case snd (filter_ts scenario_model scenario_series) of
      Inl e \<Rightarrow> False
    | Inr out \<Rightarrow>
        hd (rows (ts_values out)) = [10 / 3] \<and>
        1 / 2 < \<bar>hd (hd (rows (ts_values out))) - 5 / 2\<bar>)"
  using scenario_eval by (simp add: scenario_estimates_def)

text \<open>
  C6, as amended. The constructor does not check \<^verbatim>\<open>dim_x\<close>. Without a supplied filter
  it fails exactly when \<^verbatim>\<open>dim_x\<close> is negative and one of \<^verbatim>\<open>x_init\<close>, \<^verbatim>\<open>P\<close>, \<^verbatim>\<open>Q\<close>, \<^verbatim>\<open>F\<close>
  is left to its default, with the array library's error for a negative dimension;
  otherwise it returns the object with the attributes set, no filter yet.
\<close>

theorem init_without_dim_x_check:
  "KalmanFilter_init dx x0 Pm Qm Rm Hm Fm None =
     (if dx < 0 \<and> (x0 = None \<or> Pm = None \<or> Qm = None \<or> Fm = None)
      then Inl (ValueError ''negative dimensions are not allowed'')
      else Inr \<lparr>attrs = Some
                  \<lparr>dim_x = dx,
                   x_init = (case x0 of Some v \<Rightarrow> v | None \<Rightarrow> replicate (nat dx) 0),
                   attr_P = (case Pm of Some M \<Rightarrow> M | None \<Rightarrow> eye (nat dx)),
                   attr_Q = (case Qm of Some M \<Rightarrow> M | None \<Rightarrow> eye (nat dx)),
                   attr_R = Rm, attr_H = Hm,
                   attr_F = (case Fm of Some M \<Rightarrow> M | None \<Rightarrow> eye (nat dx))\<rparr>,
                kf = None\<rparr>)"
  by (rule KalmanFilter_init_None)

text \<open>
  C6, as stated, fails: with \<^verbatim>\<open>dim_x = 0\<close> and every other parameter left out the
  constructor returns an object, and so it does with \<^verbatim>\<open>dim_x = -1\<close> when \<^verbatim>\<open>x_init\<close>,
  \<^verbatim>\<open>P\<close>, \<^verbatim>\<open>Q\<close> and \<^verbatim>\<open>F\<close> are given.
\<close>

theorem init_dim_x_zero_counterexample:
  "KalmanFilter_init 0 None None None None None None None =
     Inr \<lparr>attrs = Some \<lparr>dim_x = 0, x_init = [], attr_P = [], attr_Q = [],
                        attr_R = None, attr_H = None, attr_F = []\<rparr>,
          kf = None\<rparr> \<and>
   KalmanFilter_init (- 1) (Some []) (Some []) (Some []) None None (Some []) None =
     Inr \<lparr>attrs = Some \<lparr>dim_x = - 1, x_init = [], attr_P = [], attr_Q = [],
                        attr_R = None, attr_H = None, attr_F = []\<rparr>,
          kf = None\<rparr>"
  by (simp add: KalmanFilter_init_None eye_def)

text \<open>
  C7. With a supplied filter the constructor sets \<^verbatim>\<open>self.kf\<close> only, and \<^verbatim>\<open>filter\<close> on a
  series of the filter's width raises \<open>AttributeError\<close> when it reads \<^verbatim>\<open>self.dim_x\<close>,
  before any observation is processed.
\<close>

theorem filter_with_supplied_kf_fails:
  "KalmanFilter_init 1 None None None None None None (Some scenario_kf) =
     Inr \<lparr>attrs = None, kf = Some scenario_kf\<rparr> \<and>
   width scenario_series = fp_dim_z scenario_kf \<and>
   filter_ts \<lparr>attrs = None, kf = Some scenario_kf\<rparr> scenario_series =
     (\<lparr>attrs = None, kf = Some scenario_kf\<rparr>, Inl (AttributeError ''dim_x''))"
  by (simp add: KalmanFilter_init_Some filter_ts_rows filter_setup_Some get_attrs_def
      width_def scenario_series_def scenario_kf_def)

text \<open>
  C8, as amended. For a model built from parameters with \<^verbatim>\<open>dim_x\<close> at least one, and a
  first call on a series of at least one column: the first call builds the filter from
  the attributes (\<^verbatim>\<open>dim_z\<close> the width of that call's series, mean \<^verbatim>\<open>x_init\<close>, covariance
  \<^verbatim>\<open>P\<close>, \<^verbatim>\<open>Q\<close>, \<^verbatim>\<open>R\<close> or the identity of size \<^verbatim>\<open>dim_z\<close>, \<^verbatim>\<open>H\<close> or the all-ones matrix, \<^verbatim>\<open>F\<close>)
  and caches it. After the first call and any further calls the object holds a filter
  with the same \<^verbatim>\<open>dim_x\<close>, \<^verbatim>\<open>dim_z\<close>, \<^verbatim>\<open>Q\<close>, \<^verbatim>\<open>R\<close>, \<^verbatim>\<open>H\<close>, \<^verbatim>\<open>F\<close>, and the next call builds
  none: it leaves the object as it is and uses the cached filter, or raises the
  dimension-mismatch error.
\<close>

theorem filter_builds_kf_once:
  fixes s :: "'t TimeSeries"
  assumes "KalmanFilter_init dx x0 Pm Qm Rm Hm Fm None = Inr m" and "0 < dx"
    and "0 < width s"
  shows "\<exists>a k0.
           attrs m = Some a \<and> kf m = None \<and> dim_x a = dx \<and>
           filter_setup m (width s) = (m\<lparr>kf := Some k0\<rparr>, Inr k0) \<and>
           k0 = \<lparr>fp_dim_x = dx, fp_dim_z = width s, fp_x = x_init a, fp_P = attr_P a,
                 fp_Q = attr_Q a,
                 fp_R = (case attr_R a of Some M \<Rightarrow> M | None \<Rightarrow> eye (width s)),
                 fp_H = (case attr_H a of Some M \<Rightarrow> M
                         | None \<Rightarrow> replicate (width s) (replicate (nat dx) 1)),
                 fp_F = attr_F a\<rparr> \<and>
           (\<forall>(ss :: 't TimeSeries list) (s' :: 't TimeSeries).
              \<exists>k. kf (filter_calls (fst (filter_ts m s)) ss) = Some k \<and> same_setup k0 k \<and>
                  (filter_setup (filter_calls (fst (filter_ts m s)) ss) (width s') =
                     (filter_calls (fst (filter_ts m s)) ss, Inr k) \<or>
                   filter_setup (filter_calls (fst (filter_ts m s)) ss) (width s') =
                     (filter_calls (fst (filter_ts m s)) ss,
                      Inl (ValidationError dim_z_message))))"
proof -
  from assms obtain a where a: "attrs m = Some a" and n: "kf m = None" and d: "dim_x a = dx"
    by (auto simp: KalmanFilter_init_None split: if_splits)
  have d0: "0 \<le> dim_x a" and d1: "0 < dim_x a" using d assms(2) by simp_all
  define k0 where "k0 = \<lparr>fp_dim_x = dx, fp_dim_z = width s, fp_x = x_init a, fp_P = attr_P a,
                 fp_Q = attr_Q a,
                 fp_R = (case attr_R a of Some M \<Rightarrow> M | None \<Rightarrow> eye (width s)),
                 fp_H = (case attr_H a of Some M \<Rightarrow> M
                         | None \<Rightarrow> replicate (width s) (replicate (nat dx) 1)),
                 fp_F = attr_F a\<rparr>"
  have nk: "new_kf a (width s) = Inr k0"
    using new_kf_pos[OF d1 assms(3)] unfolding d k0_def .
  note first = filter_ts_first_call[OF a n d0 nk]
  obtain k1 where k1: "kf (fst (filter_ts m s)) = Some k1" and s1: "same_setup k0 k1"
    using filter_ts_first_kf[OF a n d0 nk] by blast
  have later: "\<exists>k. kf (filter_calls (fst (filter_ts m s)) ss) = Some k \<and> same_setup k0 k \<and>
                  (filter_setup (filter_calls (fst (filter_ts m s)) ss) (width s') =
                     (filter_calls (fst (filter_ts m s)) ss, Inr k) \<or>
                   filter_setup (filter_calls (fst (filter_ts m s)) ss) (width s') =
                     (filter_calls (fst (filter_ts m s)) ss,
                      Inl (ValidationError dim_z_message)))"
    for ss :: "'t TimeSeries list" and s' :: "'t TimeSeries"
  proof -
    from filter_calls_kf_Some[OF k1, of ss] obtain k where
      k: "kf (filter_calls (fst (filter_ts m s)) ss) = Some k" and s2: "same_setup k1 k"
      by blast
    have "same_setup k0 k" using same_setup_trans[OF s1 s2] .
    with k show ?thesis
      by (auto simp: filter_setup_Some)
  qed
  have all_later: "\<forall>(ss :: 't TimeSeries list) (s' :: 't TimeSeries).
              \<exists>k. kf (filter_calls (fst (filter_ts m s)) ss) = Some k \<and> same_setup k0 k \<and>
                  (filter_setup (filter_calls (fst (filter_ts m s)) ss) (width s') =
                     (filter_calls (fst (filter_ts m s)) ss, Inr k) \<or>
                   filter_setup (filter_calls (fst (filter_ts m s)) ss) (width s') =
                     (filter_calls (fst (filter_ts m s)) ss,
                      Inl (ValidationError dim_z_message)))"
    by (intro allI later)
  show ?thesis
    by (rule exI[of _ a], rule exI[of _ k0])
      (intro conjI a n d first(1) k0_def all_later)
qed

theorem filter_builds_kf_once_witness:
  "KalmanFilter_init 1 (Some [0]) (Some [[1]]) (Some [[1]]) (Some [[1]]) (Some [[1]])
     (Some [[1]]) None = Inr scenario_model \<and> (0 :: int) < 1 \<and>
   0 < width scenario_series \<and>
   (\<exists>a k0.
      attrs scenario_model = Some a \<and> kf scenario_model = None \<and> dim_x a = 1 \<and>
      filter_setup scenario_model (width scenario_series) =
        (scenario_model\<lparr>kf := Some k0\<rparr>, Inr k0) \<and>
      k0 = \<lparr>fp_dim_x = 1, fp_dim_z = width scenario_series, fp_x = x_init a,
            fp_P = attr_P a, fp_Q = attr_Q a,
            fp_R = (case attr_R a of Some M \<Rightarrow> M | None \<Rightarrow> eye (width scenario_series)),
            fp_H = (case attr_H a of Some M \<Rightarrow> M
                    | None \<Rightarrow> replicate (width scenario_series) (replicate (nat 1) 1)),
            fp_F = attr_F a\<rparr> \<and>
      (\<forall>(ss :: nat TimeSeries list) (s' :: nat TimeSeries).
         \<exists>k. kf (filter_calls (fst (filter_ts scenario_model scenario_series)) ss) = Some k \<and>
             same_setup k0 k \<and>
             (filter_setup (filter_calls (fst (filter_ts scenario_model scenario_series)) ss)
                (width s') =
                (filter_calls (fst (filter_ts scenario_model scenario_series)) ss, Inr k) \<or>
              filter_setup (filter_calls (fst (filter_ts scenario_model scenario_series)) ss)
                (width s') =
                (filter_calls (fst (filter_ts scenario_model scenario_series)) ss,
                 Inl (ValidationError dim_z_message)))))"
proof -
  have pos: "(0 :: int) < 1" by simp
  have wid: "0 < width scenario_series" by (simp add: width_def scenario_series_def)
  show ?thesis
    by (rule conjI[OF scenario_init
          conjI[OF pos conjI[OF wid
            filter_builds_kf_once[OF scenario_init pos wid]]]])
qed

text \<open>
  C8, as stated, fails: the constructor returns an object for \<^verbatim>\<open>dim_x = 0\<close>, on which
  every call of \<^verbatim>\<open>filter\<close> raises when it constructs the external filter, so that no
  filter is ever built or cached.
\<close>

theorem filter_never_builds_kf_counterexample:
  "KalmanFilter_init 0 None None None None None None None = Inr dim_x_zero_model \<and>
   filter_ts dim_x_zero_model scenario_series =
     (dim_x_zero_model, Inl (ValueError ''dim_x must be 1 or greater'')) \<and>
   kf (filter_calls dim_x_zero_model [scenario_series, scenario_series]) = None"
proof -
  have a: "attrs dim_x_zero_model =
      Some \<lparr>dim_x = 0, x_init = [], attr_P = [], attr_Q = [],
            attr_R = None, attr_H = None, attr_F = []\<rparr>"
    and n: "kf dim_x_zero_model = None"
    by (simp_all add: dim_x_zero_model_def)
  have ft: "filter_ts dim_x_zero_model scenario_series =
     (dim_x_zero_model, Inl (ValueError ''dim_x must be 1 or greater''))"
    by (rule filter_ts_small_dim_x[OF a n]) simp
  have "KalmanFilter_init 0 None None None None None None None = Inr dim_x_zero_model"
    by (simp add: KalmanFilter_init_None eye_def dim_x_zero_model_def)
  with ft n show ?thesis by simp
qed

text \<open>
  C9, as amended. On an object whose filter exists, a call that raises the
  dimension-mismatch error leaves the object as it was: the filter, its mean and its
  covariance are unchanged. A call that raises another error is not covered: it can leave
  the filter advanced by the observations read so far.
\<close>

theorem filter_mismatch_leaves_state:
  assumes "kf m = Some k"
    and "snd (filter_ts m s) = Inl (ValidationError dim_z_message)"
  shows "fst (filter_ts m s) = m \<and> kf (fst (filter_ts m s)) = Some k"
proof -
  have "width s \<noteq> fp_dim_z k"
    using filter_ts_mismatch[OF assms(1), of s] assms(2) by simp
  then show ?thesis
    using assms(1) by (simp add: filter_ts_mismatch_state)
qed

theorem filter_mismatch_leaves_state_witness:
  "kf scenario_model_after = Some (scenario_kf\<lparr>fp_x := [100 / 21], fp_P := [[13 / 21]]\<rparr>) \<and>
   snd (filter_ts scenario_model_after wide_series) = Inl (ValidationError dim_z_message) \<and>
   fst (filter_ts scenario_model_after wide_series) = scenario_model_after \<and>
   kf (fst (filter_ts scenario_model_after wide_series)) =
     Some (scenario_kf\<lparr>fp_x := [100 / 21], fp_P := [[13 / 21]]\<rparr>)"
  using filter_mismatch_leaves_state[OF scenario_after_kf scenario_wide_eval]
    scenario_after_kf scenario_wide_eval
  by simp

text \<open>
  C9, as stated, fails: the operation is not all-or-nothing. The object holds a filter
  with mean 3 and covariance 1, and the series has the filter's width. The first
  observation is processed (mean 5, covariance 0), the update for the second raises
  \<open>LinAlgError\<close>, and the call leaves the filter with mean 10 and covariance 0: neither
  every observation processed nor the state untouched.
\<close>

theorem filter_not_all_or_nothing_counterexample:
  "kf (noiseless_model\<lparr>kf := Some noiseless_kf\<rparr>) = Some noiseless_kf \<and>
   width noiseless_series = fp_dim_z noiseless_kf \<and>
   kf_run noiseless_kf (take 1 (rows (ts_values noiseless_series))) =
     Inr (noiseless_kf\<lparr>fp_x := [5], fp_P := [[0]]\<rparr>) \<and>
   kf_run noiseless_kf (take 2 (rows (ts_values noiseless_series))) =
     Inl (LinAlgError ''Singular matrix'') \<and>
   filter_ts (noiseless_model\<lparr>kf := Some noiseless_kf\<rparr>) noiseless_series =
     (noiseless_model\<lparr>kf := Some (noiseless_kf\<lparr>fp_x := [10], fp_P := [[0]]\<rparr>)\<rparr>,
      Inl (LinAlgError ''Singular matrix'')) \<and>
   noiseless_kf\<lparr>fp_x := [10], fp_P := [[0]]\<rparr> \<noteq> noiseless_kf"
  by code_simp

text \<open>
  C10, as amended. For a model just built from parameters with \<^verbatim>\<open>dim_x\<close> at least one and
  a series of at least one column with no row: \<^verbatim>\<open>filter\<close> processes no observation and
  raises the error of the series constructor for an empty series, it returns nothing. It
  still builds and caches the filter, whose \<^verbatim>\<open>dim_z\<close> is the width of the series and whose
  mean and covariance are \<^verbatim>\<open>x_init\<close> and \<^verbatim>\<open>P\<close>; a later call with a series of another width
  raises the dimension-mismatch error.
\<close>

theorem filter_empty_series:
  fixes s :: "'t TimeSeries"
  assumes "KalmanFilter_init dx x0 Pm Qm Rm Hm Fm None = Inr m" and "0 < dx"
    and "0 < width s" and "rows (ts_values s) = []"
  shows "\<exists>a k0.
           attrs m = Some a \<and> new_kf a (width s) = Inr k0 \<and>
           filter_ts m s =
             (m\<lparr>kf := Some k0\<rparr>, Inl (ValueError ''Time series must not be empty'')) \<and>
           fp_dim_z k0 = width s \<and> fp_x k0 = x_init a \<and> fp_P k0 = attr_P a \<and>
           (\<forall>s' :: 't TimeSeries. width s' \<noteq> width s \<longrightarrow>
              snd (filter_ts (m\<lparr>kf := Some k0\<rparr>) s') = Inl (ValidationError dim_z_message))"
proof -
  from assms obtain a where a: "attrs m = Some a" and n: "kf m = None" and d: "dim_x a = dx"
    by (auto simp: KalmanFilter_init_None split: if_splits)
  have d0: "0 \<le> dim_x a" and d1: "0 < dim_x a" using d assms(2) by simp_all
  obtain k0 where nk: "new_kf a (width s) = Inr k0"
    using new_kf_pos[OF d1 assms(3)] by simp
  have flds: "fp_dim_z k0 = width s" "fp_x k0 = x_init a" "fp_P k0 = attr_P a"
    using nk new_kf_pos[OF d1 assms(3)] by auto
  have ft: "filter_ts m s =
             (m\<lparr>kf := Some k0\<rparr>, Inl (ValueError ''Time series must not be empty''))"
    using filter_ts_first_call(2)[OF a n d0 nk] assms(4)
    by (simp add: from_times_and_values_def)
  have "snd (filter_ts (m\<lparr>kf := Some k0\<rparr>) s') = Inl (ValidationError dim_z_message)"
    if "width s' \<noteq> width s" for s' :: "'t TimeSeries"
    using that flds(1) by (simp add: filter_ts_mismatch_state)
  with a nk ft flds show ?thesis by blast
qed

theorem filter_empty_series_witness:
  "KalmanFilter_init 1 (Some [0]) (Some [[1]]) (Some [[1]]) (Some [[1]]) (Some [[1]])
     (Some [[1]]) None = Inr scenario_model \<and> (0 :: int) < 1 \<and>
   0 < width empty_series \<and> rows (ts_values empty_series) = [] \<and>
   (\<exists>a k0.
      attrs scenario_model = Some a \<and> new_kf a (width empty_series) = Inr k0 \<and>
      filter_ts scenario_model empty_series =
        (scenario_model\<lparr>kf := Some k0\<rparr>,
         Inl (ValueError ''Time series must not be empty'')) \<and>
      fp_dim_z k0 = width empty_series \<and> fp_x k0 = x_init a \<and> fp_P k0 = attr_P a \<and>
      (\<forall>s' :: nat TimeSeries. width s' \<noteq> width empty_series \<longrightarrow>
         snd (filter_ts (scenario_model\<lparr>kf := Some k0\<rparr>) s') =
           Inl (ValidationError dim_z_message)))"
proof -
  have pos: "(0 :: int) < 1" by simp
  have wid: "0 < width empty_series" by (simp add: width_def empty_series_def)
  have emp: "rows (ts_values empty_series) = []" by (simp add: empty_series_def)
  show ?thesis
    by (rule conjI[OF scenario_init
          conjI[OF pos conjI[OF wid conjI[OF emp
            filter_empty_series[OF scenario_init pos wid emp]]]]])
qed

text \<open>
  C10, as stated, fails: on the model of the scenario, just built, and the series of
  width 1 with no row, \<^verbatim>\<open>filter\<close> raises an error and returns no series.
\<close>

theorem filter_empty_series_raises_counterexample:
  "KalmanFilter_init 1 (Some [0]) (Some [[1]]) (Some [[1]]) (Some [[1]]) (Some [[1]])
     (Some [[1]]) None = Inr scenario_model \<and>
   rows (ts_values empty_series) = [] \<and>
   filter_ts scenario_model empty_series =
     (scenario_model\<lparr>kf := Some scenario_kf\<rparr>,
      Inl (ValueError ''Time series must not be empty''))"
  by code_simp

end
